theory Spec2Isabelle
  imports Main "HOL-Library.Multiset"
begin

section \<open>Python values and the operations the handlers apply to them\<close>

text \<open>
  The value \<open>request.get_json()\<close> returns is any JSON document, so the handlers of
  \<open>backend/app.py\<close> run on dynamically typed data. \<open>JNull\<close> is Python's \<open>None\<close>,
  \<open>JObj\<close> a \<open>dict\<close> (an association list with distinct keys, read with \<open>map_of\<close>),
  \<open>JArr\<close> a \<open>list\<close>. Numbers are the JSON integers; strings are lists of characters
  with code points below 256.
\<close>

datatype json =
    JNull
  | JBool bool
  | JInt int
  | JStr string
  | JArr "json list"
  | JObj "(string \<times> json) list"

datatype exn = SQLAlchemyError | HTTPException | AttributeError | TypeError | KeyError

text \<open>Python truthiness, as \<open>not data\<close> and \<open>if data['description']\<close> use it.\<close>

fun truthy :: "json \<Rightarrow> bool" where
  "truthy JNull = False"
| "truthy (JBool b) = b"
| "truthy (JInt n) = (n \<noteq> 0)"
| "truthy (JStr s) = (s \<noteq> [])"
| "truthy (JArr xs) = (xs \<noteq> [])"
| "truthy (JObj kvs) = (kvs \<noteq> [])"

text \<open>\<open>data.get(k, d)\<close>: only a dict has the method.\<close>

fun py_get :: "json \<Rightarrow> string \<Rightarrow> json \<Rightarrow> exn + json" where
  "py_get (JObj kvs) k d = Inr (case map_of kvs k of None \<Rightarrow> d | Some v \<Rightarrow> v)"
| "py_get _ k d = Inl AttributeError"

text \<open>\<open>data[k]\<close> with a string key: a missing key raises, and so does every non-dict.\<close>

fun py_getitem :: "json \<Rightarrow> string \<Rightarrow> exn + json" where
  "py_getitem (JObj kvs) k = (case map_of kvs k of None \<Rightarrow> Inl KeyError | Some v \<Rightarrow> Inr v)"
| "py_getitem _ k = Inl TypeError"

fun is_substring :: "string \<Rightarrow> string \<Rightarrow> bool" where
  "is_substring k [] = (k = [])"
| "is_substring k (c # cs) = (take (length k) (c # cs) = k \<or> is_substring k cs)"

text \<open>
  \<open>k in data\<close>: key membership for a dict, element membership for a list, substring
  test for a string, \<open>TypeError\<close> for \<open>None\<close>, booleans and numbers.
\<close>

fun py_in :: "string \<Rightarrow> json \<Rightarrow> exn + bool" where
  "py_in k (JObj kvs) = Inr (map_of kvs k \<noteq> None)"
| "py_in k (JArr xs) = Inr (JStr k \<in> set xs)"
| "py_in k (JStr s) = Inr (is_substring k s)"
| "py_in k _ = Inl TypeError"

text \<open>\<open>isinstance(v, bool)\<close>.\<close>

fun isinstance_bool :: "json \<Rightarrow> bool" where
  "isinstance_bool (JBool b) = True"
| "isinstance_bool _ = False"

text \<open>\<open>str.isspace\<close> on one character, for the code points below 256.\<close>

definition py_isspace :: "char \<Rightarrow> bool" where
  "py_isspace c = ((of_char c :: nat) \<in> {9, 10, 11, 12, 13, 28, 29, 30, 31, 32, 133, 160})"

text \<open>\<open>str.strip()\<close> without arguments.\<close>

definition strip :: "string \<Rightarrow> string" where
  "strip s = rev (dropWhile py_isspace (rev (dropWhile py_isspace s)))"

text \<open>\<open>v.strip()\<close> on a value: only a string has the method.\<close>

fun py_strip :: "json \<Rightarrow> exn + string" where
  "py_strip (JStr s) = Inr (strip s)"
| "py_strip _ = Inl AttributeError"

text \<open>\<open>str(n)\<close> for the non-negative integers of the route converter \<open><int:todo_id>\<close>.\<close>

fun digits :: "nat \<Rightarrow> string" where
  "digits n = (if n < 10 then [char_of (48 + n)] else digits (n div 10) @ [char_of (48 + n mod 10)])"

declare digits.simps [simp del]

section \<open>The persistence layer\<close>

text \<open>
  Modelled from the spec: \<open>models.py\<close> and \<open>database.py\<close> are not among the sources.
  A \<open>Todo\<close> has the five fields of the spec's data model. The handlers only ever assign
  the result of \<open>str.strip()\<close> (or \<open>''\<close>) to \<open>title\<close> and \<open>description\<close>, so both are
  strings; \<open>completed\<close> holds whatever value the handler passes. \<open>created_at\<close> is the
  creation time in microseconds.
\<close>

record Todo =
  todo_id :: nat
  title :: string
  description :: string
  completed :: json
  created_at :: nat

text \<open>
  Modelled from the spec: the ISO-8601 text of a timestamp (\<open>YYYY-MM-DDTHH:MM:SS\<close>, with
  the microseconds appended when they are not zero).
\<close>

definition pad :: "nat \<Rightarrow> nat \<Rightarrow> string" where
  "pad w n = replicate (w - length (digits n)) (CHR ''0'') @ digits n"

definition civil_from_days :: "nat \<Rightarrow> nat \<times> nat \<times> nat" where
  "civil_from_days days =
     (let z = days + 719468;
          era = z div 146097;
          doe = z mod 146097;
          yoe = (doe - doe div 1460 + doe div 36524 - doe div 146096) div 365;
          doy = doe - (365 * yoe + yoe div 4 - yoe div 100);
          mp = (5 * doy + 2) div 153;
          d = doy - (153 * mp + 2) div 5 + 1;
          m = (if mp < 10 then mp + 3 else mp - 9);
          y = yoe + era * 400 + (if m \<le> 2 then 1 else 0)
      in (y, m, d))"

definition isoformat :: "nat \<Rightarrow> string" where
  "isoformat us =
     (let secs = us div 1000000;
          frac = us mod 1000000;
          (y, m, d) = civil_from_days (secs div 86400);
          sod = secs mod 86400
      in pad 4 y @ ''-'' @ pad 2 m @ ''-'' @ pad 2 d @ ''T'' @
         pad 2 (sod div 3600) @ '':'' @ pad 2 (sod mod 3600 div 60) @ '':'' @ pad 2 (sod mod 60) @
         (if frac = 0 then [] else ''.'' @ pad 6 frac))"

text \<open>Modelled from the spec: the JSON representation of a Todo (\<open>Todo.to_dict\<close>).\<close>

definition to_dict :: "Todo \<Rightarrow> json" where
  "to_dict t = JObj [(''id'', JInt (int (todo_id t))), (''title'', JStr (title t)),
     (''description'', JStr (description t)), (''completed'', completed t),
     (''created_at'', JStr (isoformat (created_at t)))]"

text \<open>
  Modelled from the spec: the table of committed rows, in insertion order, and its
  primitives. \<open>Todo.query.get(id)\<close> fetches by primary key;
  \<open>Todo.query.order_by(Todo.created_at.desc()).all()\<close> returns every row, newest first;
  the store assigns a fresh \<open>id\<close> on insertion.
\<close>

definition query_get :: "Todo list \<Rightarrow> nat \<Rightarrow> Todo option" where
  "query_get tbl i = find (\<lambda>t. todo_id t = i) tbl"

definition query_all_desc :: "Todo list \<Rightarrow> Todo list" where
  "query_all_desc tbl = rev (sort_key created_at tbl)"

definition fresh_id :: "Todo list \<Rightarrow> nat" where
  "fresh_id tbl = Suc (fold max (map todo_id tbl) 0)"

definition insert_row :: "Todo \<Rightarrow> Todo list \<Rightarrow> Todo list" where
  "insert_row t tbl = tbl @ [t]"

definition update_row :: "Todo \<Rightarrow> Todo list \<Rightarrow> Todo list" where
  "update_row t tbl = map (\<lambda>r. if todo_id r = todo_id t then t else r) tbl"

definition delete_row :: "nat \<Rightarrow> Todo list \<Rightarrow> Todo list" where
  "delete_row i tbl = filter (\<lambda>r. todo_id r \<noteq> i) tbl"

text \<open>
  Modelled from the spec: a storage failure (\<open>StoreError\<close>). The handlers catch
  \<open>SQLAlchemyError\<close> around their queries and commits; which of the two raises during a
  request, if any, is an input of the model.
\<close>

datatype fault = No_fault | Query_raises | Commit_raises

section \<open>Requests and responses\<close>

text \<open>\<open>request.get_json()\<close> either raises (a body that is not JSON) or returns a value.\<close>

datatype get_json = Raises | Returns json

record response =
  status :: nat
  payload :: "(string \<times> json) list"

text \<open>
  What a handler leaves behind: its response, the committed table, and the Todo object
  whose attributes it assigned without committing (\<open>None\<close> when there is none, or after
  a commit or rollback).
\<close>

record outcome =
  resp :: response
  table :: "Todo list"
  uncommitted :: "Todo option"

definition failure :: "nat \<Rightarrow> string \<Rightarrow> response" where
  "failure code msg = \<lparr>status = code, payload = [(''success'', JBool False), (''error'', JStr msg)]\<rparr>"

definition not_found_msg :: "nat \<Rightarrow> string" where
  "not_found_msg i = ''Todo with id '' @ digits i @ '' not found''"

section \<open>The handlers of backend/app.py\<close>

text \<open>
  The \<open>except\<close> clauses of \<open>create_todo\<close> and \<open>update_todo\<close>: \<open>SQLAlchemyError\<close> first
  (rollback, 500), then every other \<open>Exception\<close> (400, no rollback).
\<close>

definition create_except :: "exn \<Rightarrow> response" where
  "create_except e =
     (if e = SQLAlchemyError then failure 500 ''Failed to create todo''
      else failure 400 ''Invalid request data'')"

definition update_except :: "exn \<Rightarrow> response" where
  "update_except e =
     (if e = SQLAlchemyError then failure 500 ''Failed to update todo''
      else failure 400 ''Invalid request data'')"

definition get_todos :: "fault \<Rightarrow> Todo list \<Rightarrow> outcome" where
  "get_todos f tbl =
     (if f = Query_raises
      then \<lparr>resp = failure 500 ''Database error occurred'', table = tbl, uncommitted = None\<rparr>
      else let todos = query_all_desc tbl
           in \<lparr>resp = \<lparr>status = 200,
                        payload = [(''success'', JBool True),
                                   (''data'', JArr (map to_dict todos)),
                                   (''count'', JInt (int (length todos)))]\<rparr>,
               table = tbl, uncommitted = None\<rparr>)"

definition get_todo :: "fault \<Rightarrow> nat \<Rightarrow> Todo list \<Rightarrow> outcome" where
  "get_todo f i tbl =
     (if f = Query_raises
      then \<lparr>resp = failure 500 ''Database error occurred'', table = tbl, uncommitted = None\<rparr>
      else (case query_get tbl i of
             None \<Rightarrow> \<lparr>resp = failure 404 (not_found_msg i), table = tbl, uncommitted = None\<rparr>
           | Some todo \<Rightarrow>
               \<lparr>resp = \<lparr>status = 200,
                        payload = [(''success'', JBool True), (''data'', to_dict todo)]\<rparr>,
                table = tbl, uncommitted = None\<rparr>))"

text \<open>
  The arguments \<open>create_todo\<close> builds its \<open>Todo\<close> from, in the order the source
  evaluates them: the title check (\<open>None\<close> when it fails), then \<open>data['title'].strip()\<close>,
  \<open>data.get('description', '').strip()\<close> and \<open>data.get('completed', False)\<close>. An
  exception of any of these calls is \<open>Inl\<close>.
\<close>

definition create_args :: "json \<Rightarrow> exn + (string \<times> string \<times> json) option" where
  "create_args data =
     (case py_get data ''title'' JNull of
        Inl e \<Rightarrow> Inl e
      | Inr t \<Rightarrow>
          if \<not> truthy t then Inr None
          else (case py_strip t of
            Inl e \<Rightarrow> Inl e
          | Inr s \<Rightarrow>
              if s = [] then Inr None
              else (case py_getitem data ''title'' of
                Inl e \<Rightarrow> Inl e
              | Inr t' \<Rightarrow>
                 (case py_strip t' of
                    Inl e \<Rightarrow> Inl e
                  | Inr ttl \<Rightarrow>
                     (case py_get data ''description'' (JStr []) of
                        Inl e \<Rightarrow> Inl e
                      | Inr d \<Rightarrow>
                         (case py_strip d of
                            Inl e \<Rightarrow> Inl e
                          | Inr dsc \<Rightarrow>
                             (case py_get data ''completed'' (JBool False) of
                                Inl e \<Rightarrow> Inl e
                              | Inr c \<Rightarrow> Inr (Some (ttl, dsc, c)))))))))"

definition create_todo :: "fault \<Rightarrow> nat \<Rightarrow> get_json \<Rightarrow> Todo list \<Rightarrow> outcome" where
  "create_todo f now req tbl =
     (case req of
        Raises \<Rightarrow> \<lparr>resp = create_except HTTPException, table = tbl, uncommitted = None\<rparr>
      | Returns data \<Rightarrow>
          if \<not> truthy data
          then \<lparr>resp = failure 400 ''No data provided'', table = tbl, uncommitted = None\<rparr>
          else (case create_args data of
            Inl e \<Rightarrow> \<lparr>resp = create_except e, table = tbl, uncommitted = None\<rparr>
          | Inr None \<Rightarrow>
              \<lparr>resp = failure 400 ''Title is required and cannot be empty'',
               table = tbl, uncommitted = None\<rparr>
          | Inr (Some (ttl, dsc, c)) \<Rightarrow>
              if f = Commit_raises
              then \<lparr>resp = create_except SQLAlchemyError, table = tbl, uncommitted = None\<rparr>
              else let todo = \<lparr>todo_id = fresh_id tbl, title = ttl, description = dsc,
                                completed = c, created_at = now\<rparr>
                   in \<lparr>resp = \<lparr>status = 201,
                                payload = [(''success'', JBool True), (''data'', to_dict todo),
                                           (''message'', JStr ''Todo created successfully'')]\<rparr>,
                       table = insert_row todo tbl, uncommitted = None\<rparr>))"

text \<open>
  The three \<open>if k in data\<close> blocks of \<open>update_todo\<close>, each on the Todo object as the
  blocks before it left it. A block ends in an exception, in an early return with a
  validation message, or falls through with the object it assigned to.
\<close>

datatype 'a step = Raised exn | Rejected string | Next 'a

definition update_title :: "json \<Rightarrow> Todo \<Rightarrow> Todo step" where
  "update_title data todo =
     (case py_in ''title'' data of
        Inl e \<Rightarrow> Raised e
      | Inr False \<Rightarrow> Next todo
      | Inr True \<Rightarrow>
         (case py_getitem data ''title'' of
            Inl e \<Rightarrow> Raised e
          | Inr t \<Rightarrow>
              if \<not> truthy t then Rejected ''Title cannot be empty''
              else (case py_strip t of
                Inl e \<Rightarrow> Raised e
              | Inr s \<Rightarrow>
                  if s = [] then Rejected ''Title cannot be empty''
                  else Next (todo\<lparr>title := s\<rparr>))))"

definition update_description :: "json \<Rightarrow> Todo \<Rightarrow> Todo step" where
  "update_description data todo =
     (case py_in ''description'' data of
        Inl e \<Rightarrow> Raised e
      | Inr False \<Rightarrow> Next todo
      | Inr True \<Rightarrow>
         (case py_getitem data ''description'' of
            Inl e \<Rightarrow> Raised e
          | Inr d \<Rightarrow>
              if truthy d
              then (case py_strip d of
                Inl e \<Rightarrow> Raised e
              | Inr s \<Rightarrow> Next (todo\<lparr>description := s\<rparr>))
              else Next (todo\<lparr>description := []\<rparr>)))"

definition update_completed :: "json \<Rightarrow> Todo \<Rightarrow> Todo step" where
  "update_completed data todo =
     (case py_in ''completed'' data of
        Inl e \<Rightarrow> Raised e
      | Inr False \<Rightarrow> Next todo
      | Inr True \<Rightarrow>
         (case py_getitem data ''completed'' of
            Inl e \<Rightarrow> Raised e
          | Inr c \<Rightarrow>
              if \<not> isinstance_bool c then Rejected ''Completed must be a boolean value''
              else Next (todo\<lparr>completed := c\<rparr>)))"

text \<open>
  The object the session holds when the handler stops, and how the blocks ended. An
  early return or an exception in a later block keeps the assignments of the earlier ones.
\<close>

definition update_fields :: "json \<Rightarrow> Todo \<Rightarrow> Todo \<times> unit step" where
  "update_fields data todo =
     (case update_title data todo of
        Raised e \<Rightarrow> (todo, Raised e)
      | Rejected m \<Rightarrow> (todo, Rejected m)
      | Next t1 \<Rightarrow>
         (case update_description data t1 of
            Raised e \<Rightarrow> (t1, Raised e)
          | Rejected m \<Rightarrow> (t1, Rejected m)
          | Next t2 \<Rightarrow>
             (case update_completed data t2 of
                Raised e \<Rightarrow> (t2, Raised e)
              | Rejected m \<Rightarrow> (t2, Rejected m)
              | Next t3 \<Rightarrow> (t3, Next ()))))"

definition dirty :: "Todo \<Rightarrow> Todo \<Rightarrow> Todo option" where
  "dirty loaded obj = (if obj = loaded then None else Some obj)"

definition update_todo :: "fault \<Rightarrow> nat \<Rightarrow> get_json \<Rightarrow> Todo list \<Rightarrow> outcome" where
  "update_todo f i req tbl =
     (if f = Query_raises
      then \<lparr>resp = update_except SQLAlchemyError, table = tbl, uncommitted = None\<rparr>
      else (case query_get tbl i of
        None \<Rightarrow> \<lparr>resp = failure 404 (not_found_msg i), table = tbl, uncommitted = None\<rparr>
      | Some todo \<Rightarrow>
         (case req of
            Raises \<Rightarrow>
              \<lparr>resp = update_except HTTPException, table = tbl, uncommitted = None\<rparr>
          | Returns data \<Rightarrow>
              if \<not> truthy data
              then \<lparr>resp = failure 400 ''No data provided'', table = tbl, uncommitted = None\<rparr>
              else (case update_fields data todo of
                (obj, Raised e) \<Rightarrow>
                  \<lparr>resp = update_except e, table = tbl, uncommitted = dirty todo obj\<rparr>
              | (obj, Rejected m) \<Rightarrow>
                  \<lparr>resp = failure 400 m, table = tbl, uncommitted = dirty todo obj\<rparr>
              | (obj, Next u) \<Rightarrow>
                  if f = Commit_raises
                  then \<lparr>resp = update_except SQLAlchemyError, table = tbl,
                        uncommitted = None\<rparr>
                  else \<lparr>resp = \<lparr>status = 200,
                                 payload = [(''success'', JBool True), (''data'', to_dict obj),
                                            (''message'', JStr ''Todo updated successfully'')]\<rparr>,
                        table = update_row obj tbl, uncommitted = None\<rparr>))))"

definition delete_todo :: "fault \<Rightarrow> nat \<Rightarrow> Todo list \<Rightarrow> outcome" where
  "delete_todo f i tbl =
     (if f = Query_raises
      then \<lparr>resp = failure 500 ''Failed to delete todo'', table = tbl, uncommitted = None\<rparr>
      else (case query_get tbl i of
        None \<Rightarrow> \<lparr>resp = failure 404 (not_found_msg i), table = tbl, uncommitted = None\<rparr>
      | Some todo \<Rightarrow>
          if f = Commit_raises
          then \<lparr>resp = failure 500 ''Failed to delete todo'', table = tbl, uncommitted = None\<rparr>
          else \<lparr>resp = \<lparr>status = 200,
                         payload = [(''success'', JBool True),
                                    (''message'', JStr ''Todo deleted successfully'')]\<rparr>,
                table = delete_row i tbl, uncommitted = None\<rparr>))"

section \<open>Requests in sequence\<close>

text \<open>
  Modelled from the spec: no state persists across requests, so what a handler assigned
  and did not commit is gone when the next request starts, and each request runs on the
  committed table. \<open>Create\<close> carries the time of the request.
\<close>

datatype request =
    List_todos
  | Get_todo nat
  | Create_todo nat get_json
  | Update_todo nat get_json
  | Delete_todo nat



section \<open>The vocabulary of the specification\<close>

text \<open>A key of the response envelope is present.\<close>

definition has_key :: "string \<Rightarrow> response \<Rightarrow> bool" where
  "has_key k r = (map_of (payload r) k \<noteq> None)"

definition success_true :: "response \<Rightarrow> bool" where
  "success_true r = (map_of (payload r) ''success'' = Some (JBool True))"

text \<open>
  The envelope rule as the specification words it: exactly one of \<open>data\<close> and
  \<open>error\<close>, and no \<open>error\<close> beside \<open>success: true\<close>.
\<close>

definition envelope_rule :: "response \<Rightarrow> bool" where
  "envelope_rule r =
     ((has_key ''data'' r \<noteq> has_key ''error'' r) \<and> \<not> (has_key ''error'' r \<and> success_true r))"

text \<open>A field is present in the request body: the body is an object with that key.\<close>

fun body_has :: "string \<Rightarrow> json \<Rightarrow> bool" where
  "body_has k (JObj kvs) = (map_of kvs k \<noteq> None)"
| "body_has k _ = False"









section \<open>Helper lemmas\<close>

lemma query_get_delete_row: "query_get (delete_row i tbl) i = None"
  by (induction tbl) (auto simp: query_get_def delete_row_def)

lemma sorted_desc_query_all: "sorted_wrt (\<lambda>a b. created_at b \<le> created_at a) (query_all_desc tbl)"
proof -
  have "sorted (map created_at (sort_key created_at tbl))" by simp
  then have "sorted_wrt (\<lambda>a b. created_at a \<le> created_at b) (sort_key created_at tbl)"
    by (simp add: sorted_map)
  then show ?thesis
    unfolding query_all_desc_def by (simp add: sorted_wrt_rev)
qed

lemma mset_query_all: "mset (query_all_desc tbl) = mset tbl"
  by (simp add: query_all_desc_def)

section \<open>The claims\<close>

text \<open>
  C5. For every table, the list operation (no storage failure) answers 200 with every
  stored todo, each exactly once, ordered by \<open>created_at\<close> descending, and a \<open>count\<close>
  equal to the number of returned records; it leaves the table as it was.
\<close>

theorem list_newest_first:
  "\<exists>todos. resp (get_todos No_fault tbl) =
      \<lparr>status = 200,
       payload = [(''success'', JBool True), (''data'', JArr (map to_dict todos)),
                  (''count'', JInt (int (length todos)))]\<rparr> \<and>
     mset todos = mset tbl \<and>
     sorted_wrt (\<lambda>a b. created_at b \<le> created_at a) todos \<and>
     table (get_todos No_fault tbl) = tbl"
  by (rule exI [of _ "query_all_desc tbl"])
     (simp add: get_todos_def Let_def mset_query_all sorted_desc_query_all)

text \<open>
  C9. Delete is a hard delete: when the id exists (and the store does not fail) the
  answer is 200 and the table afterwards holds exactly the rows with another id; a get of
  that id and a second delete of that id then both answer 404.
\<close>

theorem delete_is_hard:
  assumes "query_get tbl i = Some t"
  shows "status (resp (delete_todo No_fault i tbl)) = 200 \<and>
   set (table (delete_todo No_fault i tbl)) = {r \<in> set tbl. todo_id r \<noteq> i} \<and>
   query_get (table (delete_todo No_fault i tbl)) i = None \<and>
   status (resp (get_todo No_fault i (table (delete_todo No_fault i tbl)))) = 404 \<and>
   status (resp (delete_todo No_fault i (table (delete_todo No_fault i tbl)))) = 404"
proof -
  have first: "delete_todo No_fault i tbl =
      \<lparr>resp = \<lparr>status = 200, payload = [(''success'', JBool True),
                (''message'', JStr ''Todo deleted successfully'')]\<rparr>,
       table = delete_row i tbl, uncommitted = None\<rparr>"
    using assms by (simp add: delete_todo_def)
  have gone: "query_get (delete_row i tbl) i = None"
    by (rule query_get_delete_row)
  have rows: "set (delete_row i tbl) = {r \<in> set tbl. todo_id r \<noteq> i}"
    by (auto simp: delete_row_def)
  have get404: "status (resp (get_todo No_fault i (delete_row i tbl))) = 404"
    using gone by (simp add: get_todo_def failure_def)
  have del404: "status (resp (delete_todo No_fault i (delete_row i tbl))) = 404"
    using gone by (simp add: delete_todo_def failure_def)
  show ?thesis
    using gone rows get404 del404 by (simp add: first)
qed

theorem delete_is_hard_witness:
  "query_get [\<lparr>todo_id = 1, title = ''a'', description = [], completed = JBool False, created_at = 0\<rparr>] 1
     = Some \<lparr>todo_id = 1, title = ''a'', description = [], completed = JBool False, created_at = 0\<rparr> \<and>
   status (resp (delete_todo No_fault 1
     [\<lparr>todo_id = 1, title = ''a'', description = [], completed = JBool False, created_at = 0\<rparr>])) = 200 \<and>
   table (delete_todo No_fault 1
     [\<lparr>todo_id = 1, title = ''a'', description = [], completed = JBool False, created_at = 0\<rparr>]) = [] \<and>
   status (resp (get_todo No_fault 1 [])) = 404 \<and>
   status (resp (delete_todo No_fault 1 [])) = 404"
proof -
  let ?t = "\<lparr>todo_id = 1, title = ''a'', description = [], completed = JBool False, created_at = 0\<rparr>"
  have q: "query_get [?t] 1 = Some ?t" by (simp add: query_get_def)
  have tb: "table (delete_todo No_fault 1 [?t]) = []"
    by (simp add: delete_todo_def query_get_def delete_row_def)
  show ?thesis
    using q tb delete_is_hard [OF q] by simp
qed







text \<open>
  C2, as the claim states it, fails: \<open>update_todo\<close> validates and assigns field by
  field, so a body with a valid title and a non-boolean \<open>completed\<close> is answered 400
  after the title has been written to the loaded record.
\<close>

theorem update_writes_before_rejecting_counterexample:
  "status (resp (update_todo No_fault 1
      (Returns (JObj [(''title'', JStr ''New''), (''completed'', JStr ''yes'')]))
      [\<lparr>todo_id = 1, title = ''Old'', description = ''d'', completed = JBool False, created_at = 5\<rparr>])) = 400 \<and>
   uncommitted (update_todo No_fault 1
      (Returns (JObj [(''title'', JStr ''New''), (''completed'', JStr ''yes'')]))
      [\<lparr>todo_id = 1, title = ''Old'', description = ''d'', completed = JBool False, created_at = 5\<rparr>]) =
     Some \<lparr>todo_id = 1, title = ''New'', description = ''d'', completed = JBool False, created_at = 5\<rparr>"
  by (simp add: update_todo_def query_get_def update_fields_def update_title_def
      update_description_def update_completed_def strip_def py_isspace_def dirty_def failure_def)

text \<open>
  C2, amended. An update request answered 400 commits nothing: the table, and so the
  stored title, description and completed of every todo, is what it was before the
  request.
\<close>

theorem update_400_commits_nothing:
  "status (resp (update_todo f i req tbl)) = 400 \<Longrightarrow> table (update_todo f i req tbl) = tbl"
  by (simp add: update_todo_def update_except_def failure_def
      split: option.splits get_json.splits prod.splits step.splits if_splits)

theorem update_400_commits_nothing_witness:
  "status (resp (update_todo No_fault 1 (Returns (JObj [(''completed'', JStr ''yes'')]))
      [\<lparr>todo_id = 1, title = ''Old'', description = ''d'', completed = JBool False, created_at = 5\<rparr>])) = 400 \<and>
   table (update_todo No_fault 1 (Returns (JObj [(''completed'', JStr ''yes'')]))
      [\<lparr>todo_id = 1, title = ''Old'', description = ''d'', completed = JBool False, created_at = 5\<rparr>]) =
     [\<lparr>todo_id = 1, title = ''Old'', description = ''d'', completed = JBool False, created_at = 5\<rparr>]"
proof -
  let ?t = "\<lparr>todo_id = 1, title = ''Old'', description = ''d'', completed = JBool False, created_at = 5\<rparr>"
  let ?req = "Returns (JObj [(''completed'', JStr ''yes'')])"
  have h: "status (resp (update_todo No_fault 1 ?req [?t])) = 400"
    by (simp add: update_todo_def query_get_def update_fields_def update_title_def
        update_description_def update_completed_def failure_def)
  show ?thesis
    using h update_400_commits_nothing [OF h] by simp
qed

text \<open>
  C3, as the claim states it, fails for delete: the answer to a successful delete has
  neither \<open>data\<close> nor \<open>error\<close>.
\<close>

theorem delete_envelope_counterexample:
  "\<not> envelope_rule (resp (delete_todo No_fault 1
      [\<lparr>todo_id = 1, title = ''a'', description = [], completed = JBool False, created_at = 0\<rparr>]))"
  by (simp add: delete_todo_def query_get_def envelope_rule_def has_key_def)


text \<open>The envelopes of the five handlers, one handler at a time.\<close>

lemma envelope_failure: "envelope_rule (failure c m)"
  by (simp add: envelope_rule_def failure_def has_key_def success_true_def)

lemma failure_keys:
  "\<not> has_key ''data'' (failure c m)" "has_key ''error'' (failure c m)" "\<not> success_true (failure c m)"
  by (simp_all add: failure_def has_key_def success_true_def)

lemma envelope_data:
  "envelope_rule \<lparr>status = c, payload = (''success'', JBool True) # (''data'', d) # (''message'', m) # []\<rparr>"
  by (simp add: envelope_rule_def has_key_def success_true_def)

lemma envelope_get_todos: "envelope_rule (resp (get_todos f tbl))"
  by (simp add: get_todos_def envelope_failure Let_def)
     (simp add: envelope_rule_def has_key_def success_true_def)

lemma envelope_get_todo: "envelope_rule (resp (get_todo f i tbl))"
  by (simp add: get_todo_def envelope_failure split: option.splits)
     (simp add: envelope_rule_def has_key_def success_true_def)

lemma envelope_create: "envelope_rule (resp (create_todo f now req tbl))"
  by (simp add: create_todo_def create_except_def envelope_failure envelope_data Let_def
        split: get_json.splits sum.splits option.splits prod.splits)

lemma envelope_update: "envelope_rule (resp (update_todo f i req tbl))"
  by (simp add: update_todo_def update_except_def envelope_failure envelope_data
        split: get_json.splits option.splits prod.splits step.splits)

lemma delete_keys:
  "\<not> has_key ''data'' (resp (delete_todo f i tbl))"
  "has_key ''error'' (resp (delete_todo f i tbl)) = (\<not> success_true (resp (delete_todo f i tbl)))"
  by (simp_all add: delete_todo_def failure_keys split: option.splits)
     (simp_all add: has_key_def success_true_def)

text \<open>
  C3, amended. Every response of list, get-by-id, create and update has exactly one of
  \<open>data\<close> and \<open>error\<close>, and no \<open>error\<close> beside \<open>success: true\<close>. A response of
  delete never has \<open>data\<close>, and has \<open>error\<close> exactly when \<open>success\<close> is not true.
\<close>

theorem envelope_of_every_response:
  "envelope_rule (resp (get_todos f tbl)) \<and>
   envelope_rule (resp (get_todo f i tbl)) \<and>
   envelope_rule (resp (create_todo f now req tbl)) \<and>
   envelope_rule (resp (update_todo f i req tbl)) \<and>
   \<not> has_key ''data'' (resp (delete_todo f i tbl)) \<and>
   has_key ''error'' (resp (delete_todo f i tbl)) = (\<not> success_true (resp (delete_todo f i tbl)))"
  using envelope_get_todos envelope_get_todo envelope_create envelope_update delete_keys
  by blast

theorem envelope_of_every_response_witness:
  "envelope_rule (resp (get_todos No_fault [])) \<and>
   envelope_rule (resp (get_todo No_fault 1 [])) \<and>
   envelope_rule (resp (create_todo No_fault 0 Raises [])) \<and>
   envelope_rule (resp (update_todo No_fault 1 Raises [])) \<and>
   \<not> has_key ''data'' (resp (delete_todo No_fault 1 [])) \<and>
   has_key ''error'' (resp (delete_todo No_fault 1 [])) =
     (\<not> success_true (resp (delete_todo No_fault 1 [])))"
  using envelope_of_every_response [where f = No_fault and tbl = "[]" and i = 1 and now = 0 and req = Raises]
  by simp

text \<open>
  What the three blocks of \<open>update_todo\<close> leave alone: each block assigns its own field
  only, and only when the body is an object that has the key.
\<close>

lemma py_in_present: "py_in k data = Inr True \<Longrightarrow> py_getitem data k = Inr v \<Longrightarrow> body_has k data"
  by (cases data) (auto split: option.splits)

lemma update_title_frame:
  assumes "update_title data t = Next t'"
  shows "todo_id t' = todo_id t \<and> created_at t' = created_at t \<and>
         description t' = description t \<and> completed t' = completed t \<and>
         (\<not> body_has ''title'' data \<longrightarrow> t' = t)"
  using assms py_in_present [of "''title''" data]
  by (auto simp: update_title_def split: sum.splits bool.splits if_splits)

lemma update_description_frame:
  assumes "update_description data t = Next t'"
  shows "todo_id t' = todo_id t \<and> created_at t' = created_at t \<and>
         title t' = title t \<and> completed t' = completed t \<and>
         (\<not> body_has ''description'' data \<longrightarrow> t' = t)"
  using assms py_in_present [of "''description''" data]
  by (auto simp: update_description_def split: sum.splits bool.splits if_splits)

lemma update_completed_frame:
  assumes "update_completed data t = Next t'"
  shows "todo_id t' = todo_id t \<and> created_at t' = created_at t \<and>
         title t' = title t \<and> description t' = description t \<and>
         (\<not> body_has ''completed'' data \<longrightarrow> t' = t)"
  using assms py_in_present [of "''completed''" data]
  by (auto simp: update_completed_def split: sum.splits bool.splits if_splits)

lemma update_fields_frame:
  assumes "update_fields data t = (t', Next u)"
  shows "todo_id t' = todo_id t \<and> created_at t' = created_at t \<and>
         (\<not> body_has ''title'' data \<longrightarrow> title t' = title t) \<and>
         (\<not> body_has ''description'' data \<longrightarrow> description t' = description t) \<and>
         (\<not> body_has ''completed'' data \<longrightarrow> completed t' = completed t)"
proof -
  from assms obtain t1 t2 where
    s1: "update_title data t = Next t1" and
    s2: "update_description data t1 = Next t2" and
    s3: "update_completed data t2 = Next t'"
    by (auto simp: update_fields_def split: step.splits)
  from update_title_frame [OF s1] update_description_frame [OF s2] update_completed_frame [OF s3]
  show ?thesis by auto
qed


lemma query_get_Some: "query_get tbl i = Some t \<Longrightarrow> t \<in> set tbl \<and> todo_id t = i"
  by (auto simp: query_get_def find_Some_iff)

lemma update_todo_outcome:
  "table (update_todo f i req tbl) = tbl \<and> status (resp (update_todo f i req tbl)) \<noteq> 200 \<or>
   (\<exists>t data t' u. query_get tbl i = Some t \<and> req = Returns data \<and>
      update_fields data t = (t', Next u) \<and>
      table (update_todo f i req tbl) = update_row t' tbl)"
  by (simp add: update_todo_def update_except_def failure_def
      split: option.splits get_json.splits prod.splits step.splits)

lemma update_row_ids:
  "todo_id t' = i \<Longrightarrow> map todo_id (map (\<lambda>r. if todo_id r = i then t' else r) tbl) = map todo_id tbl"
  by (induction tbl) auto

lemma update_row_created_at:
  "\<forall>r \<in> set tbl. todo_id r = i \<longrightarrow> created_at r = created_at t' \<Longrightarrow>
   map created_at (map (\<lambda>r. if todo_id r = i then t' else r) tbl) = map created_at tbl"
  by (induction tbl) auto

lemma distinct_ids_same_row:
  "distinct (map todo_id tbl) \<Longrightarrow> r \<in> set tbl \<Longrightarrow> t \<in> set tbl \<Longrightarrow> todo_id r = todo_id t \<Longrightarrow> r = t"
  by (auto simp: distinct_map dest: inj_onD)

text \<open>
  C8. A successful update replaces the target row by a record with the same \<open>id\<close> and
  \<open>created_at\<close> in which every field absent from the body has its old value, and leaves
  every other row as it was. In a table with unique ids no update request, successful or
  not, changes the \<open>id\<close> or the \<open>created_at\<close> of any row.
\<close>

theorem update_frame:
  "(query_get tbl i = Some t \<longrightarrow> status (resp (update_todo f i (Returns data) tbl)) = 200 \<longrightarrow>
      (\<exists>t'. table (update_todo f i (Returns data) tbl) =
                map (\<lambda>r. if todo_id r = i then t' else r) tbl \<and>
            todo_id t' = todo_id t \<and> created_at t' = created_at t \<and>
            (\<not> body_has ''title'' data \<longrightarrow> title t' = title t) \<and>
            (\<not> body_has ''description'' data \<longrightarrow> description t' = description t) \<and>
            (\<not> body_has ''completed'' data \<longrightarrow> completed t' = completed t))) \<and>
   (distinct (map todo_id tbl) \<longrightarrow>
      map todo_id (table (update_todo f i req tbl)) = map todo_id tbl \<and>
      map created_at (table (update_todo f i req tbl)) = map created_at tbl)"
proof (intro conjI impI)
  assume q: "query_get tbl i = Some t"
    and ok: "status (resp (update_todo f i (Returns data) tbl)) = 200"
  from update_todo_outcome [of f i "Returns data" tbl] q ok obtain t' u where
    uf: "update_fields data t = (t', Next u)" and
    tb: "table (update_todo f i (Returns data) tbl) = update_row t' tbl"
    by auto
  have fr: "todo_id t' = todo_id t \<and> created_at t' = created_at t \<and>
         (\<not> body_has ''title'' data \<longrightarrow> title t' = title t) \<and>
         (\<not> body_has ''description'' data \<longrightarrow> description t' = description t) \<and>
         (\<not> body_has ''completed'' data \<longrightarrow> completed t' = completed t)"
    by (rule update_fields_frame [OF uf])
  have "todo_id t' = i" using fr query_get_Some [OF q] by simp
  then have "table (update_todo f i (Returns data) tbl) = map (\<lambda>r. if todo_id r = i then t' else r) tbl"
    by (simp add: tb update_row_def)
  with fr show "\<exists>t'. table (update_todo f i (Returns data) tbl) =
                map (\<lambda>r. if todo_id r = i then t' else r) tbl \<and>
            todo_id t' = todo_id t \<and> created_at t' = created_at t \<and>
            (\<not> body_has ''title'' data \<longrightarrow> title t' = title t) \<and>
            (\<not> body_has ''description'' data \<longrightarrow> description t' = description t) \<and>
            (\<not> body_has ''completed'' data \<longrightarrow> completed t' = completed t)"
    by blast
next
  assume d: "distinct (map todo_id tbl)"
  consider (same) "table (update_todo f i req tbl) = tbl"
    | (row) t data t' u where "query_get tbl i = Some t" "update_fields data t = (t', Next u)"
        "table (update_todo f i req tbl) = update_row t' tbl"
    using update_todo_outcome [of f i req tbl] by blast
  then have both: "map todo_id (table (update_todo f i req tbl)) = map todo_id tbl \<and>
      map created_at (table (update_todo f i req tbl)) = map created_at tbl"
  proof cases
    case same
    then show ?thesis by simp
  next
    case row
    have fr: "todo_id t' = todo_id t \<and> created_at t' = created_at t"
      using update_fields_frame [OF row(2)] by simp
    have mem: "t \<in> set tbl \<and> todo_id t = i" by (rule query_get_Some [OF row(1)])
    have "\<forall>r \<in> set tbl. todo_id r = todo_id t' \<longrightarrow> created_at r = created_at t'"
      using distinct_ids_same_row [OF d] mem fr by metis
    then show ?thesis
      using fr by (simp add: row(3) update_row_def update_row_ids update_row_created_at)
  qed
  from both show "map todo_id (table (update_todo f i req tbl)) = map todo_id tbl" by simp
  from both show "map created_at (table (update_todo f i req tbl)) = map created_at tbl" by simp
qed


theorem update_frame_witness:
  "query_get [\<lparr>todo_id = 1, title = ''Old'', description = ''d'', completed = JBool False, created_at = 5\<rparr>] 1 =
     Some \<lparr>todo_id = 1, title = ''Old'', description = ''d'', completed = JBool False, created_at = 5\<rparr> \<and>
   status (resp (update_todo No_fault 1 (Returns (JObj [(''completed'', JBool True)]))
     [\<lparr>todo_id = 1, title = ''Old'', description = ''d'', completed = JBool False, created_at = 5\<rparr>])) = 200 \<and>
   distinct (map todo_id
     [\<lparr>todo_id = 1, title = ''Old'', description = ''d'', completed = JBool False, created_at = 5\<rparr>]) \<and>
   (\<exists>t'. table (update_todo No_fault 1 (Returns (JObj [(''completed'', JBool True)]))
            [\<lparr>todo_id = 1, title = ''Old'', description = ''d'', completed = JBool False, created_at = 5\<rparr>]) = [t'] \<and>
         todo_id t' = 1 \<and> created_at t' = 5 \<and> title t' = ''Old'' \<and> description t' = ''d'')"
proof -
  let ?t = "\<lparr>todo_id = 1, title = ''Old'', description = ''d'', completed = JBool False, created_at = 5\<rparr>"
  let ?data = "JObj [(''completed'', JBool True)]"
  have q: "query_get [?t] 1 = Some ?t" by (simp add: query_get_def)
  have ok: "status (resp (update_todo No_fault 1 (Returns ?data) [?t])) = 200"
    by (simp add: update_todo_def query_get_def update_fields_def update_title_def
        update_description_def update_completed_def)
  have d: "distinct (map todo_id [?t])" by simp
  from update_frame [of "[?t]" 1 ?t No_fault ?data "Returns ?data"] q ok
  have "\<exists>t'. table (update_todo No_fault 1 (Returns ?data) [?t]) = [t'] \<and>
         todo_id t' = 1 \<and> created_at t' = 5 \<and> title t' = ''Old'' \<and> description t' = ''d''"
    by simp
  with q ok d show ?thesis by blast
qed































end
